theory Spec2Isabelle
  imports Main "HOL-Library.Word"
begin

section \<open>Python values, bytes and errors\<close>

text \<open>
  A byte is an 8-bit word and a \<open>bytes\<close> object a list of them.  A Python \<open>str\<close> is a
  sequence of Unicode code points, kept here as natural numbers (every code point of a
  \<open>str\<close> is below \<open>0x110000\<close>); \<open>len\<close> of a \<open>str\<close> counts code points, \<open>len\<close>
  of a \<open>bytes\<close> counts bytes.
\<close>

type_synonym byte = "8 word"
type_synonym pybytes = "byte list"
type_synonym pystr = "nat list"

text \<open>
  The exceptions of \<open>mytable/errors.py\<close> that the code raises, and the built-in
  exceptions that the library calls of the code raise (\<open>struct.error\<close> is
  \<open>StructPackError\<close>).
\<close>

datatype error =
    IdError
  | NoFieldError
  | ValidationError
  | InvalidLengthError
  | TooLongError
  | TypeError
  | AttributeError
  | KeyError
  | StructPackError
  | UnicodeEncodeError
  | UnicodeDecodeError
  | OSError
  | ValueError
  | ZeroDivisionError

section \<open>The block store (\<open>mytable/table.py\<close>)\<close>

text \<open>
  The file of a \<open>Table\<close> is its byte content.  Every method of \<open>Table\<close> seeks to an
  absolute offset before it reads or writes, so the position a call leaves behind is
  never observed by the next one and the state keeps the bytes only.  A write takes
  effect at once: the buffer of the file object is not part of the model.  The block
  size is a width in bytes, a natural number.  \<open>max_offset\<close> is the largest offset that
  the filesystem of the file accepts in a seek; it depends on the filesystem (a file of
  at most 16 TiB has \<open>2 ^ 44 - 1\<close>) and is the parameter of the model for it.

  \<open>file_seek lim f off\<close> is \<open>f.seek(off)\<close>.  An offset that does not fit the signed
  64-bit offset type raises \<open>ValueError\<close>; a negative offset that fits it raises
  \<open>OSError\<close>, and so does an offset above \<open>lim\<close>.  Seeking past the end of the file
  is allowed up to \<open>lim\<close>.  No file is longer than its filesystem allows, so an offset
  from \<open>0\<close> to the length of the file is accepted whatever \<open>lim\<close> is.

  \<open>file_seek_read lim f off n\<close> is \<open>f.seek(off); f.read(n)\<close>: the read returns the bytes
  that are there from \<open>off\<close> on, at most \<open>n\<close>, possibly none.
  \<open>file_seek_write lim f off b\<close> is \<open>f.seek(off); f.write(b)\<close>: the bytes from \<open>off\<close>
  on are overwritten, the file grows when the write passes its end, and a gap between
  the old end and \<open>off\<close> reads as zero bytes.  The write itself is taken to succeed
  (a full disk is not part of the model).
\<close>

record Table =
  file_bytes :: pybytes
  block_size :: nat
  max_offset :: int

definition file_seek :: "int \<Rightarrow> pybytes \<Rightarrow> int \<Rightarrow> error + nat" where
  "file_seek lim f off =
     (if 0 \<le> off \<and> nat off \<le> length f then Inr (nat off)
      else if off < - (2 ^ 63) \<or> 2 ^ 63 \<le> off then Inl ValueError
      else if off < 0 then Inl OSError
      else if lim < off then Inl OSError
      else Inr (nat off))"

definition file_seek_read :: "int \<Rightarrow> pybytes \<Rightarrow> int \<Rightarrow> nat \<Rightarrow> error + pybytes" where
  "file_seek_read lim f off n =
     (case file_seek lim f off of
        Inl e \<Rightarrow> Inl e
      | Inr pos \<Rightarrow> Inr (take n (drop pos f)))"

definition file_seek_write :: "int \<Rightarrow> pybytes \<Rightarrow> int \<Rightarrow> pybytes \<Rightarrow> error + pybytes" where
  "file_seek_write lim f off b =
     (case file_seek lim f off of
        Inl e \<Rightarrow> Inl e
      | Inr pos \<Rightarrow>
          Inr (take pos f @ replicate (pos - length f) 0 @ b @ drop (pos + length b) f))"

definition Table_size :: "Table \<Rightarrow> error + int" where
  "Table_size t =
     (if block_size t = 0 then Inl ZeroDivisionError
      else Inr (int (length (file_bytes t)) div int (block_size t)))"

definition Table_get :: "Table \<Rightarrow> int \<Rightarrow> error + pybytes" where
  "Table_get t idx =
     file_seek_read (max_offset t) (file_bytes t) (idx * int (block_size t)) (block_size t)"

definition Table_append :: "Table \<Rightarrow> pybytes \<Rightarrow> (error + int) \<times> Table" where
  "Table_append t block =
     (case Table_size t of
        Inl e \<Rightarrow> (Inl e, t)
      | Inr idx \<Rightarrow>
          (case file_seek_write (max_offset t) (file_bytes t)
                  (idx * int (block_size t)) block of
             Inl e \<Rightarrow> (Inl e, t)
           | Inr f' \<Rightarrow> (Inr idx, t\<lparr>file_bytes := f'\<rparr>)))"

definition Table_update :: "Table \<Rightarrow> pybytes \<Rightarrow> int \<Rightarrow> (error + unit) \<times> Table" where
  "Table_update t block idx =
     (case file_seek_write (max_offset t) (file_bytes t) (idx * int (block_size t)) block of
        Inl e \<Rightarrow> (Inl e, t)
      | Inr f' \<Rightarrow> (Inr (), t\<lparr>file_bytes := f'\<rparr>))"

text \<open>
  The loop of \<open>find_sorted\<close>, on the loop variables \<open>idx\<close> and \<open>size\<close> (here \<open>sz\<close>).  An exception of
  \<open>get\<close> leaves the loop.  The key function is a total function from blocks to a linearly
  ordered type.
\<close>

function find_sorted_loop ::
  "Table \<Rightarrow> 'k::linorder \<Rightarrow> (pybytes \<Rightarrow> 'k) \<Rightarrow> int \<Rightarrow> int \<Rightarrow> error + int" where
  "find_sorted_loop t val get_value idx sz =
     (if sz > 0 then
        (case Table_get t (idx + sz div 2) of
           Inl e \<Rightarrow> Inl e
         | Inr block \<Rightarrow>
             if val > get_value block
             then find_sorted_loop t val get_value
                    (idx + (sz div 2 + 1)) (sz div 2 + sz mod 2 - 1)
             else find_sorted_loop t val get_value idx (sz div 2))
      else Inr idx)"
  by pat_completeness auto
termination
  by (relation "measure (\<lambda>(t, val, get_value, idx, sz). nat sz)") auto

definition Table_find_sorted ::
  "Table \<Rightarrow> 'k::linorder \<Rightarrow> (pybytes \<Rightarrow> 'k) \<Rightarrow> error + int" where
  "Table_find_sorted t val get_value =
     (case Table_size t of
        Inl e \<Rightarrow> Inl e
      | Inr sz \<Rightarrow> find_sorted_loop t val get_value 0 sz)"

text \<open>
  The blocks of the store: block \<open>j\<close> is the byte range from \<open>j * block_size\<close> to
  \<open>(j + 1) * block_size\<close>, for every \<open>j\<close> below the number of whole blocks.
\<close>

definition Table_blocks :: "Table \<Rightarrow> pybytes list" where
  "Table_blocks t =
     map (\<lambda>j. take (block_size t) (drop (j * block_size t) (file_bytes t)))
       [0 ..< length (file_bytes t) div block_size t]"

section \<open>Python values\<close>

text \<open>
  The values a field of a record can hold: \<open>None\<close>, a \<open>bool\<close>, an \<open>int\<close> (unbounded),
  a \<open>str\<close>, a \<open>bytes\<close>, and \<open>PyObject\<close> for an object of any other class (a field
  descriptor, for instance).  Floating-point values are not part of the model, and so
  the variants \<open>Float32\<close> and \<open>Float64\<close> of \<open>mytable/fields.py\<close> are not either.
\<close>

datatype pyval =
    PyNone
  | PyBool bool
  | PyInt int
  | PyStr pystr
  | PyBytes pybytes
  | PyObject

text \<open>\<open>len(v)\<close>: defined on \<open>str\<close> and \<open>bytes\<close>, a \<open>TypeError\<close> on the other values.\<close>

fun py_len :: "pyval \<Rightarrow> error + nat" where
  "py_len (PyStr s) = Inr (length s)"
| "py_len (PyBytes b) = Inr (length b)"
| "py_len v = Inl TypeError"

text \<open>The integer a value counts as in arithmetic and comparisons: \<open>bool\<close> is a subclass of \<open>int\<close>.\<close>

fun py_int_of :: "pyval \<Rightarrow> int option" where
  "py_int_of (PyInt i) = Some i"
| "py_int_of (PyBool b) = Some (if b then 1 else 0)"
| "py_int_of v = None"

text \<open>\<open>v != 0\<close>: numbers compare by value, every other value differs from \<open>0\<close>.\<close>

definition py_ne_zero :: "pyval \<Rightarrow> bool" where
  "py_ne_zero v = (case py_int_of v of Some i \<Rightarrow> i \<noteq> 0 | None \<Rightarrow> True)"

text \<open>The truth value of an object, which \<open>struct.pack('?', v)\<close> stores.\<close>

fun py_truth :: "pyval \<Rightarrow> bool" where
  "py_truth PyNone = False"
| "py_truth (PyBool b) = b"
| "py_truth (PyInt i) = (i \<noteq> 0)"
| "py_truth (PyStr s) = (s \<noteq> [])"
| "py_truth (PyBytes b) = (b \<noteq> [])"
| "py_truth PyObject = True"

subsection \<open>\<open>struct.pack\<close> and \<open>struct.unpack\<close>\<close>

text \<open>
  The big-endian integer formats \<open>>B >H >I >Q\<close> (unsigned, 1, 2, 4 and 8 bytes) and
  \<open>>b >h >i >q\<close> (two's complement), and \<open>?\<close> (one byte).  \<open>pack\<close> raises \<open>struct.error\<close>
  for an argument that is not an integer or is out of the format's range; \<open>unpack\<close>
  raises it for a buffer that has not the format's size.
\<close>

fun be_bytes :: "nat \<Rightarrow> nat \<Rightarrow> pybytes" where
  "be_bytes 0 n = []"
| "be_bytes (Suc k) n = be_bytes k (n div 256) @ [of_nat (n mod 256)]"

definition be_value :: "pybytes \<Rightarrow> nat" where
  "be_value bs = foldl (\<lambda>a b. a * 256 + unat b) 0 bs"

definition pack_uint :: "nat \<Rightarrow> pyval \<Rightarrow> error + pybytes" where
  "pack_uint k v =
     (case py_int_of v of
        None \<Rightarrow> Inl StructPackError
      | Some i \<Rightarrow>
          if 0 \<le> i \<and> i < 2 ^ (8 * k) then Inr (be_bytes k (nat i))
          else Inl StructPackError)"

definition unpack_uint :: "nat \<Rightarrow> pybytes \<Rightarrow> error + pyval" where
  "unpack_uint k block =
     (if length block = k then Inr (PyInt (int (be_value block)))
      else Inl StructPackError)"

definition pack_int :: "nat \<Rightarrow> pyval \<Rightarrow> error + pybytes" where
  "pack_int k v =
     (case py_int_of v of
        None \<Rightarrow> Inl StructPackError
      | Some i \<Rightarrow>
          if - (2 ^ (8 * k - 1)) \<le> i \<and> i < 2 ^ (8 * k - 1)
          then Inr (be_bytes k (nat (i mod 2 ^ (8 * k))))
          else Inl StructPackError)"

definition unpack_int :: "nat \<Rightarrow> pybytes \<Rightarrow> error + pyval" where
  "unpack_int k block =
     (if length block = k
      then Inr (PyInt (if int (be_value block) < 2 ^ (8 * k - 1)
                       then int (be_value block)
                       else int (be_value block) - 2 ^ (8 * k)))
      else Inl StructPackError)"

definition pack_bool :: "pyval \<Rightarrow> error + pybytes" where
  "pack_bool v = Inr [if py_truth v then 1 else 0]"

fun unpack_bool :: "pybytes \<Rightarrow> error + pyval" where
  "unpack_bool [b] = Inr (PyBool (b \<noteq> 0))"
| "unpack_bool block = Inl StructPackError"

subsection \<open>\<open>str.encode()\<close> and \<open>bytes.decode()\<close>: UTF-8, strict\<close>

text \<open>
  \<open>encode\<close> raises \<open>UnicodeEncodeError\<close> on a surrogate code point (\<open>0xD800\<close> to
  \<open>0xDFFF\<close>).  No \<open>str\<close> holds a number from \<open>0x110000\<close> on; the model refuses it the
  same way.  \<open>decode\<close> raises \<open>UnicodeDecodeError\<close> on a byte that starts no sequence, a
  missing or wrong continuation byte, an overlong form, a surrogate and a code point
  from \<open>0x110000\<close> on.
\<close>

definition utf8_encode_char :: "nat \<Rightarrow> error + pybytes" where
  "utf8_encode_char c =
     (if c < 0x80 then Inr [of_nat c]
      else if c < 0x800 then Inr [of_nat (0xC0 + c div 64), of_nat (0x80 + c mod 64)]
      else if 0xD800 \<le> c \<and> c < 0xE000 then Inl UnicodeEncodeError
      else if c < 0x10000 then
        Inr [of_nat (0xE0 + c div 4096), of_nat (0x80 + c div 64 mod 64),
             of_nat (0x80 + c mod 64)]
      else if c < 0x110000 then
        Inr [of_nat (0xF0 + c div 262144), of_nat (0x80 + c div 4096 mod 64),
             of_nat (0x80 + c div 64 mod 64), of_nat (0x80 + c mod 64)]
      else Inl UnicodeEncodeError)"

fun utf8_encode :: "pystr \<Rightarrow> error + pybytes" where
  "utf8_encode [] = Inr []"
| "utf8_encode (c # s) =
     (case utf8_encode_char c of
        Inl e \<Rightarrow> Inl e
      | Inr b \<Rightarrow> (case utf8_encode s of Inl e \<Rightarrow> Inl e | Inr bs \<Rightarrow> Inr (b @ bs)))"

definition is_cont :: "byte \<Rightarrow> bool" where
  "is_cont b = (0x80 \<le> unat b \<and> unat b < 0xC0)"

definition cont_bits :: "byte \<Rightarrow> nat" where
  "cont_bits b = unat b - 0x80"

definition decoded :: "nat \<Rightarrow> error + pystr \<Rightarrow> error + pystr" where
  "decoded c rest = (case rest of Inl e \<Rightarrow> Inl e | Inr s \<Rightarrow> Inr (c # s))"

fun utf8_decode :: "pybytes \<Rightarrow> error + pystr" where
  "utf8_decode [] = Inr []"
| "utf8_decode (b0 # bs) =
     (if unat b0 < 0x80 then decoded (unat b0) (utf8_decode bs)
      else if unat b0 < 0xC0 then Inl UnicodeDecodeError
      else if unat b0 < 0xE0 then
        (case bs of
           b1 # r \<Rightarrow>
             if is_cont b1 \<and> 0x80 \<le> (unat b0 - 0xC0) * 64 + cont_bits b1
             then decoded ((unat b0 - 0xC0) * 64 + cont_bits b1) (utf8_decode r)
             else Inl UnicodeDecodeError
         | _ \<Rightarrow> Inl UnicodeDecodeError)
      else if unat b0 < 0xF0 then
        (case bs of
           b1 # b2 # r \<Rightarrow>
             if is_cont b1 \<and> is_cont b2
                \<and> 0x800 \<le> (unat b0 - 0xE0) * 4096 + cont_bits b1 * 64 + cont_bits b2
                \<and> \<not> (0xD800 \<le> (unat b0 - 0xE0) * 4096 + cont_bits b1 * 64 + cont_bits b2
                      \<and> (unat b0 - 0xE0) * 4096 + cont_bits b1 * 64 + cont_bits b2 < 0xE000)
             then decoded ((unat b0 - 0xE0) * 4096 + cont_bits b1 * 64 + cont_bits b2)
                    (utf8_decode r)
             else Inl UnicodeDecodeError
         | _ \<Rightarrow> Inl UnicodeDecodeError)
      else if unat b0 < 0xF8 then
        (case bs of
           b1 # b2 # b3 # r \<Rightarrow>
             if is_cont b1 \<and> is_cont b2 \<and> is_cont b3
                \<and> 0x10000 \<le> (unat b0 - 0xF0) * 262144 + cont_bits b1 * 4096
                                + cont_bits b2 * 64 + cont_bits b3
                \<and> (unat b0 - 0xF0) * 262144 + cont_bits b1 * 4096
                     + cont_bits b2 * 64 + cont_bits b3 < 0x110000
             then decoded ((unat b0 - 0xF0) * 262144 + cont_bits b1 * 4096
                           + cont_bits b2 * 64 + cont_bits b3) (utf8_decode r)
             else Inl UnicodeDecodeError
         | _ \<Rightarrow> Inl UnicodeDecodeError)
      else Inl UnicodeDecodeError)"

section \<open>The field codecs (\<open>mytable/fields.py\<close>)\<close>

text \<open>
  A field is its class (with the length of a \<open>Varchar\<close> or a \<open>Bytes\<close>) and its
  default value.  The methods \<open>validate\<close>, \<open>sizeof\<close>, \<open>to_bytes\<close> and \<open>from_bytes\<close> are
  functions of the field, by cases on the class.  The constructor's assertion that a
  default is given is left out.
\<close>

datatype kind =
    Varchar nat
  | Bytes nat
  | Uint8 | Uint16 | Uint32 | Uint64
  | Int8 | Int16 | Int32 | Int64
  | Boolean

datatype field = BaseField (kind: kind) (default: pyval)

text \<open>\<open>BaseField.validate\<close>, which \<open>Varchar\<close> and \<open>Bytes\<close> call first and the other classes inherit.\<close>

definition BaseField_validate :: "pyval \<Rightarrow> error + unit" where
  "BaseField_validate v = (if v = PyNone then Inl ValidationError else Inr ())"

definition validate :: "field \<Rightarrow> pyval \<Rightarrow> error + unit" where
  "validate f v =
     (case BaseField_validate v of
        Inl e \<Rightarrow> Inl e
      | Inr u \<Rightarrow>
          (case kind f of
             Varchar n \<Rightarrow>
               (case py_len v of
                  Inl e \<Rightarrow> Inl e
                | Inr l \<Rightarrow> if l > n then Inl TooLongError else Inr ())
           | Bytes n \<Rightarrow>
               (case py_len v of
                  Inl e \<Rightarrow> Inl e
                | Inr l \<Rightarrow> if l \<noteq> n then Inl InvalidLengthError else Inr ())
           | _ \<Rightarrow> Inr ()))"

definition sizeof :: "field \<Rightarrow> nat" where
  "sizeof f =
     (case kind f of
        Varchar n \<Rightarrow> n
      | Bytes n \<Rightarrow> n
      | Uint8 \<Rightarrow> 1 | Uint16 \<Rightarrow> 2 | Uint32 \<Rightarrow> 4 | Uint64 \<Rightarrow> 8
      | Int8 \<Rightarrow> 1 | Int16 \<Rightarrow> 2 | Int32 \<Rightarrow> 4 | Int64 \<Rightarrow> 8
      | Boolean \<Rightarrow> 1)"

text \<open>
  \<open>Varchar.to_bytes\<close> calls \<open>value.encode()\<close>, which only a \<open>str\<close> has, and pads the
  result with \<open>length - len(block)\<close> zero bytes: none when the difference is negative.
  \<open>Bytes.to_bytes\<close> returns the value as it is; a value that is not a \<open>bytes\<close> is refused
  with a \<open>TypeError\<close> by the \<open>join\<close> of \<open>as_bytes\<close>, and by the model here.
\<close>

definition Varchar_to_bytes :: "nat \<Rightarrow> pyval \<Rightarrow> error + pybytes" where
  "Varchar_to_bytes n v =
     (case v of
        PyStr s \<Rightarrow>
          (case utf8_encode s of
             Inl e \<Rightarrow> Inl e
           | Inr block \<Rightarrow> Inr (block @ replicate (n - length block) 0))
      | _ \<Rightarrow> Inl AttributeError)"

definition Bytes_to_bytes :: "pyval \<Rightarrow> error + pybytes" where
  "Bytes_to_bytes v = (case v of PyBytes b \<Rightarrow> Inr b | _ \<Rightarrow> Inl TypeError)"

definition to_bytes :: "field \<Rightarrow> pyval \<Rightarrow> error + pybytes" where
  "to_bytes f v =
     (case kind f of
        Varchar n \<Rightarrow> Varchar_to_bytes n v
      | Bytes n \<Rightarrow> Bytes_to_bytes v
      | Uint8 \<Rightarrow> pack_uint 1 v | Uint16 \<Rightarrow> pack_uint 2 v
      | Uint32 \<Rightarrow> pack_uint 4 v | Uint64 \<Rightarrow> pack_uint 8 v
      | Int8 \<Rightarrow> pack_int 1 v | Int16 \<Rightarrow> pack_int 2 v
      | Int32 \<Rightarrow> pack_int 4 v | Int64 \<Rightarrow> pack_int 8 v
      | Boolean \<Rightarrow> pack_bool v)"

definition Varchar_from_bytes :: "pybytes \<Rightarrow> error + pyval" where
  "Varchar_from_bytes block =
     (case utf8_decode block of Inl e \<Rightarrow> Inl e | Inr s \<Rightarrow> Inr (PyStr s))"

definition from_bytes :: "field \<Rightarrow> pybytes \<Rightarrow> error + pyval" where
  "from_bytes f block =
     (case kind f of
        Varchar n \<Rightarrow> Varchar_from_bytes block
      | Bytes n \<Rightarrow> Inr (PyBytes block)
      | Uint8 \<Rightarrow> unpack_uint 1 block | Uint16 \<Rightarrow> unpack_uint 2 block
      | Uint32 \<Rightarrow> unpack_uint 4 block | Uint64 \<Rightarrow> unpack_uint 8 block
      | Int8 \<Rightarrow> unpack_int 1 block | Int16 \<Rightarrow> unpack_int 2 block
      | Int32 \<Rightarrow> unpack_int 4 block | Int64 \<Rightarrow> unpack_int 8 block
      | Boolean \<Rightarrow> unpack_bool block)"

section \<open>Schemas and records (\<open>mytable/struct.py\<close>)\<close>

text \<open>
  A subclass of \<open>Struct\<close> is its class dictionary \<open>cls.__dict__\<close>: the attributes of the
  class body in the order of their definition, each a field or something else.  A
  dictionary has every key once.  An instance is its \<open>__dict__\<close>, a map from attribute
  names to values.  The store the class is bound to (\<open>cls.__table__\<close>) is passed to the
  operations and returned by those that write.
\<close>

datatype attr = Field field | Other pyval

type_synonym schema = "(string \<times> attr) list"
type_synonym inst = "string \<rightharpoonup> pyval"

definition Struct_init_subclass :: "schema \<Rightarrow> error + unit" where
  "Struct_init_subclass cls =
     (if ''id'' \<notin> set (map fst cls) then Inl NoFieldError else Inr ())"

fun Struct_iter_fields :: "schema \<Rightarrow> (string \<times> field) list" where
  "Struct_iter_fields [] = []"
| "Struct_iter_fields ((name, Field f) # cls) = (name, f) # Struct_iter_fields cls"
| "Struct_iter_fields ((name, Other v) # cls) = Struct_iter_fields cls"

text \<open>
  \<open>__setattr__\<close>: the class attribute of that name (\<open>KeyError\<close> when there is none)
  validates the value; an attribute that is no field has no \<open>validate\<close>.
\<close>

definition Struct_setattr :: "schema \<Rightarrow> inst \<Rightarrow> string \<Rightarrow> pyval \<Rightarrow> error + inst" where
  "Struct_setattr cls r name v =
     (case map_of cls name of
        None \<Rightarrow> Inl KeyError
      | Some (Other x) \<Rightarrow> Inl AttributeError
      | Some (Field f) \<Rightarrow>
          (case validate f v of Inl e \<Rightarrow> Inl e | Inr u \<Rightarrow> Inr (r(name \<mapsto> v))))"

text \<open>
  Reading an attribute (\<open>self.id\<close>): the instance's own value, or else the attribute of
  the class, which for a field is the field object.
\<close>

definition Struct_getattr :: "schema \<Rightarrow> inst \<Rightarrow> string \<Rightarrow> error + pyval" where
  "Struct_getattr cls r name =
     (case r name of
        Some v \<Rightarrow> Inr v
      | None \<Rightarrow>
          (case map_of cls name of
             None \<Rightarrow> Inl AttributeError
           | Some (Other x) \<Rightarrow> Inr x
           | Some (Field f) \<Rightarrow> Inr PyObject))"

text \<open>\<open>__init__\<close>: every field, in order, takes the keyword argument of its name or its default.\<close>

fun init_fields :: "schema \<Rightarrow> (string \<times> field) list \<Rightarrow> inst \<Rightarrow> inst \<Rightarrow> error + inst" where
  "init_fields cls [] kwargs r = Inr r"
| "init_fields cls ((name, f) # fs) kwargs r =
     (case Struct_setattr cls r name
             (case kwargs name of Some v \<Rightarrow> v | None \<Rightarrow> default f) of
        Inl e \<Rightarrow> Inl e
      | Inr r' \<Rightarrow> init_fields cls fs kwargs r')"

definition Struct_init :: "schema \<Rightarrow> inst \<Rightarrow> error + inst" where
  "Struct_init cls kwargs = init_fields cls (Struct_iter_fields cls) kwargs Map.empty"

text \<open>\<open>as_bytes\<close>: the join of the fields' encodings of \<open>self.__dict__[name]\<close>, in order.\<close>

fun join_fields :: "(string \<times> field) list \<Rightarrow> inst \<Rightarrow> error + pybytes" where
  "join_fields [] r = Inr []"
| "join_fields ((name, f) # fs) r =
     (case r name of
        None \<Rightarrow> Inl KeyError
      | Some v \<Rightarrow>
          (case to_bytes f v of
             Inl e \<Rightarrow> Inl e
           | Inr b \<Rightarrow>
               (case join_fields fs r of Inl e \<Rightarrow> Inl e | Inr bs \<Rightarrow> Inr (b @ bs))))"

definition Struct_as_bytes :: "schema \<Rightarrow> inst \<Rightarrow> error + pybytes" where
  "Struct_as_bytes cls r = join_fields (Struct_iter_fields cls) r"

definition Struct_block_size :: "schema \<Rightarrow> nat" where
  "Struct_block_size cls = sum_list (map (\<lambda>(name, f). sizeof f) (Struct_iter_fields cls))"

text \<open>
  \<open>from_bytes\<close>: the loop over the fields decodes the slice \<open>block[offset:offset + size]\<close>
  of each into \<open>kwargs\<close>; then the constructor is called.
\<close>

fun decode_fields ::
  "(string \<times> field) list \<Rightarrow> pybytes \<Rightarrow> nat \<Rightarrow> inst \<Rightarrow> error + inst" where
  "decode_fields [] block offset kwargs = Inr kwargs"
| "decode_fields ((name, f) # fs) block offset kwargs =
     (case from_bytes f (take (sizeof f) (drop offset block)) of
        Inl e \<Rightarrow> Inl e
      | Inr v \<Rightarrow> decode_fields fs block (offset + sizeof f) (kwargs(name \<mapsto> v)))"

definition Struct_from_bytes :: "schema \<Rightarrow> pybytes \<Rightarrow> error + inst" where
  "Struct_from_bytes cls block =
     (case decode_fields (Struct_iter_fields cls) block 0 Map.empty of
        Inl e \<Rightarrow> Inl e
      | Inr kwargs \<Rightarrow> Struct_init cls kwargs)"

text \<open>
  \<open>bind\<close> opens the file of the path (here: its content and the largest offset of its
  filesystem) with the block size of the class.
\<close>

definition Struct_bind :: "schema \<Rightarrow> int \<Rightarrow> pybytes \<Rightarrow> Table" where
  "Struct_bind cls lim content =
     \<lparr>file_bytes = content, block_size = Struct_block_size cls, max_offset = lim\<rparr>"

text \<open>
  \<open>get_index_by_id\<close>: \<open>id > 0 and id <= size()\<close> compares first with \<open>0\<close> (a \<open>TypeError\<close>
  for a value that is no number) and asks the size only for a positive \<open>id\<close>.
\<close>

definition Struct_get_index_by_id :: "Table \<Rightarrow> pyval \<Rightarrow> error + int" where
  "Struct_get_index_by_id t ident =
     (case py_int_of ident of
        None \<Rightarrow> Inl TypeError
      | Some i \<Rightarrow>
          if i > 0 then
            (case Table_size t of
               Inl e \<Rightarrow> Inl e
             | Inr n \<Rightarrow> if i \<le> n then Inr (i - 1) else Inl IdError)
          else Inl IdError)"

text \<open>
  \<open>insert\<close>, \<open>update\<close> and \<open>get\<close>.  The operations that write return the store as it is when
  they return or raise, and \<open>insert\<close> the instance too (it sets \<open>self.id\<close>).
\<close>

definition Struct_insert :: "schema \<Rightarrow> inst \<Rightarrow> Table \<Rightarrow> (error + pyval) \<times> inst \<times> Table" where
  "Struct_insert cls r t =
     (case Struct_getattr cls r ''id'' of
        Inl e \<Rightarrow> (Inl e, r, t)
      | Inr v \<Rightarrow>
          if py_ne_zero v then (Inl IdError, r, t)
          else
            (case Struct_as_bytes cls r of
               Inl e \<Rightarrow> (Inl e, r, t)
             | Inr b \<Rightarrow>
                 (case Table_append t b of
                    (Inl e, t1) \<Rightarrow> (Inl e, r, t1)
                  | (Inr idx, t1) \<Rightarrow>
                      (case Struct_setattr cls r ''id'' (PyInt (idx + 1)) of
                         Inl e \<Rightarrow> (Inl e, r, t1)
                       | Inr r1 \<Rightarrow>
                           (case Struct_as_bytes cls r1 of
                              Inl e \<Rightarrow> (Inl e, r1, t1)
                            | Inr b1 \<Rightarrow>
                                (case Table_update t1 b1 idx of
                                   (Inl e, t2) \<Rightarrow> (Inl e, r1, t2)
                                 | (Inr u, t2) \<Rightarrow>
                                     (case Struct_getattr cls r1 ''id'' of
                                        Inl e \<Rightarrow> (Inl e, r1, t2)
                                      | Inr v1 \<Rightarrow> (Inr v1, r1, t2))))))))"

definition Struct_update :: "schema \<Rightarrow> inst \<Rightarrow> Table \<Rightarrow> (error + unit) \<times> Table" where
  "Struct_update cls r t =
     (case Struct_getattr cls r ''id'' of
        Inl e \<Rightarrow> (Inl e, t)
      | Inr v \<Rightarrow>
          (case Struct_get_index_by_id t v of
             Inl e \<Rightarrow> (Inl e, t)
           | Inr idx \<Rightarrow>
               (case Struct_as_bytes cls r of
                  Inl e \<Rightarrow> (Inl e, t)
                | Inr b \<Rightarrow> Table_update t b idx)))"

definition Struct_get :: "schema \<Rightarrow> Table \<Rightarrow> pyval \<Rightarrow> error + inst" where
  "Struct_get cls t ident =
     (case Struct_get_index_by_id t ident of
        Inl e \<Rightarrow> Inl e
      | Inr idx \<Rightarrow>
          (case Table_get t idx of
             Inl e \<Rightarrow> Inl e
           | Inr block \<Rightarrow> Struct_from_bytes cls block))"

subsection \<open>The Python type of a value and of a field's values\<close>




section \<open>Example inputs\<close>

text \<open>
  A store of three one-byte blocks and a store of three two-byte blocks with a trailing
  partial block, on a filesystem whose largest offset is \<open>2 ^ 44 - 1\<close>; the key of a
  block is the sum of its bytes.
\<close>

definition fs_limit :: int where
  "fs_limit = 2 ^ 44 - 1"

definition key_sum :: "pybytes \<Rightarrow> nat" where
  "key_sum b = sum_list (map unat b)"

definition store135 :: Table where
  "store135 = \<lparr>file_bytes = [1, 3, 5], block_size = 1, max_offset = fs_limit\<rparr>"

definition store_unsorted :: Table where
  "store_unsorted =
     \<lparr>file_bytes = [0, 7, 0, 2, 0, 5, 9], block_size = 2, max_offset = fs_limit\<rparr>"

text \<open>
  The schema of the tests (\<open>tests.py\<close>): \<open>id = Uint64(default=0)\<close>,
  \<open>name = Varchar(32, default="")\<close>, \<open>age = Uint32(default=0)\<close>; a class body without
  \<open>id\<close>; and a class body whose \<open>id\<close> is \<open>Uint32(default=5)\<close>.
\<close>

definition Person :: schema where
  "Person = [(''id'', Field (BaseField Uint64 (PyInt 0))),
             (''name'', Field (BaseField (Varchar 32) (PyStr []))),
             (''age'', Field (BaseField Uint32 (PyInt 0)))]"

definition schema_no_id :: schema where
  "schema_no_id = [(''name'', Field (BaseField (Varchar 32) (PyStr [])))]"

definition schema_id_uint32 :: schema where
  "schema_id_uint32 = [(''id'', Field (BaseField Uint32 (PyInt 5)))]"

text \<open>\<open>Person(name='alex', age=32)\<close> as constructed, with \<open>id\<close> 0, and the same record with \<open>id\<close> 1.\<close>

definition alex :: inst where
  "alex = [''id'' \<mapsto> PyInt 0, ''name'' \<mapsto> PyStr [97, 108, 101, 120], ''age'' \<mapsto> PyInt 32]"

definition alex1 :: inst where
  "alex1 = alex(''id'' \<mapsto> PyInt 1)"

text \<open>The values of a record's fields in the order of the schema, as \<open>__repr__\<close> lists them.\<close>

definition Struct_values :: "schema \<Rightarrow> inst \<Rightarrow> pyval option list" where
  "Struct_values cls r = map (\<lambda>(name, f). r name) (Struct_iter_fields cls)"


definition alex_block1 :: pybytes where
  "alex_block1 = replicate 7 0 @ [1] @ [97, 108, 101, 120] @ replicate 28 0 @ [0, 0, 0, 32]"


text \<open>
  A schema with a one-character name, \<open>id = Uint64(default=0)\<close> and
  \<open>name = Varchar(1, default="")\<close>; the records whose name is the one character
  U+00E9 (two bytes in UTF-8), with \<open>id\<close> 0 and with \<open>id\<close> 1; and a store of the two
  records \<open>(1, 'a')\<close> and \<open>(2, 'b')\<close>.
\<close>

definition Tag :: schema where
  "Tag = [(''id'', Field (BaseField Uint64 (PyInt 0))),
          (''name'', Field (BaseField (Varchar 1) (PyStr [])))]"

definition e_acute :: inst where
  "e_acute = [''id'' \<mapsto> PyInt 0, ''name'' \<mapsto> PyStr [233]]"

definition e_acute1 :: inst where
  "e_acute1 = [''id'' \<mapsto> PyInt 1, ''name'' \<mapsto> PyStr [233]]"

definition store_ab :: Table where
  "store_ab = Struct_bind Tag fs_limit (replicate 7 0 @ [1, 97] @ replicate 7 0 @ [2, 98])"

section \<open>The binary search of the block store\<close>

lemma file_seek_in_file:
  "0 \<le> off \<Longrightarrow> nat off \<le> length f \<Longrightarrow> file_seek lim f off = Inr (nat off)"
  by (simp add: file_seek_def)

text \<open>Reading at an offset within the file.\<close>

lemma Table_get_in_file:
  assumes "0 \<le> idx" and "nat idx * block_size t \<le> length (file_bytes t)"
  shows "Table_get t idx =
     Inr (take (block_size t) (drop (nat idx * block_size t) (file_bytes t)))"
proof -
  have n: "nat (idx * int (block_size t)) = nat idx * block_size t"
    using assms(1) by (simp add: nat_mult_distrib)
  have "0 \<le> idx * int (block_size t)" using assms(1) by simp
  then have "file_seek (max_offset t) (file_bytes t) (idx * int (block_size t))
      = Inr (nat idx * block_size t)"
    using file_seek_in_file [of "idx * int (block_size t)" "file_bytes t" "max_offset t"]
      assms(2) n by simp
  then show ?thesis by (simp add: Table_get_def file_seek_read_def)
qed

lemma Table_size_pos:
  "0 < block_size t \<Longrightarrow> Table_size t = Inr (int (length (file_bytes t) div block_size t))"
  by (simp add: Table_size_def zdiv_int)

lemma length_Table_blocks: "length (Table_blocks t) = length (file_bytes t) div block_size t"
  by (simp add: Table_blocks_def)

text \<open>Reading at an index below the size returns the block of that index.\<close>

lemma Table_get_blocks:
  assumes "j < length (Table_blocks t)"
  shows "Table_get t (int j) = Inr (Table_blocks t ! j)"
proof -
  from assms have j: "j < length (file_bytes t) div block_size t"
    by (simp add: length_Table_blocks)
  then have "j * block_size t \<le> length (file_bytes t) div block_size t * block_size t"
    by (simp add: mult_le_mono1)
  also have "\<dots> \<le> length (file_bytes t)" by simp
  finally have "nat (int j) * block_size t \<le> length (file_bytes t)" by simp
  from Table_get_in_file [OF _ this] j show ?thesis by (simp add: Table_blocks_def)
qed

lemma find_sorted_loop_bounds:
  "i + s \<le> length (Table_blocks t) \<Longrightarrow>
   \<exists>r. find_sorted_loop t v key_of (int i) (int s) = Inr (int r) \<and> i \<le> r \<and> r \<le> i + s"
proof (induction s arbitrary: i rule: less_induct)
  case (less s)
  show ?case
  proof (cases "s = 0")
    case True
    then show ?thesis by simp
  next
    case False
    let ?m = "i + s div 2"
    let ?b = "Table_blocks t ! ?m"
    have m_lt: "?m < length (Table_blocks t)"
      using False less.prems
      by (simp add: less_le_trans [OF _ less.prems] add_strict_left_mono)
    have a0: "int i + int s div 2 = int ?m" by simp
    have g: "Table_get t (int i + int s div 2) = Inr ?b"
      unfolding a0 by (rule Table_get_blocks [OF m_lt])
    have a1: "int i + (int s div 2 + 1) = int (i + s div 2 + 1)" by simp
    have a2: "int s div 2 + int s mod 2 - 1 = int (s - s div 2 - 1)"
      using False by (simp add: of_nat_diff) presburger
    have a3: "int s div 2 = int (s div 2)" by simp
    show ?thesis
    proof (cases "v > key_of ?b")
      case True
      have lt: "s - s div 2 - 1 < s" using False by simp
      have p1: "i + s div 2 + 1 + (s - s div 2 - 1) \<le> length (Table_blocks t)"
        using less.prems False by simp
      from less.IH [OF lt p1]
      obtain r where
        "find_sorted_loop t v key_of (int (i + s div 2 + 1)) (int (s - s div 2 - 1)) = Inr (int r)"
        and "i + s div 2 + 1 \<le> r" and "r \<le> i + s div 2 + 1 + (s - s div 2 - 1)" by blast
      then show ?thesis
        using False True g
        by (subst find_sorted_loop.simps) (auto simp only: a1 a2 split: sum.splits, auto)
    next
      case F: False
      have lt: "s div 2 < s" using False by simp
      have p1: "i + s div 2 \<le> length (Table_blocks t)" using m_lt by simp
      from less.IH [OF lt p1]
      obtain r where "find_sorted_loop t v key_of (int i) (int (s div 2)) = Inr (int r)"
        and "i \<le> r" and "r \<le> i + s div 2" by blast
      then show ?thesis
        using False F g
        by (subst find_sorted_loop.simps) (auto simp only: a3 split: sum.splits, auto)
    qed
  qed
qed

text \<open>
  The invariant of the loop on a sorted store: every key before \<open>idx\<close> is below the
  probe, and no key from \<open>idx + size\<close> on is.
\<close>

lemma find_sorted_loop_lower_bound:
  fixes key_of :: "pybytes \<Rightarrow> 'k::linorder"
  assumes srt: "sorted (map key_of (Table_blocks t))"
  shows "i + s \<le> length (Table_blocks t) \<Longrightarrow>
     (\<forall>j<i. key_of (Table_blocks t ! j) < v) \<Longrightarrow>
     (\<forall>j. i + s \<le> j \<and> j < length (Table_blocks t) \<longrightarrow> v \<le> key_of (Table_blocks t ! j)) \<Longrightarrow>
     \<exists>r. find_sorted_loop t v key_of (int i) (int s) = Inr (int r) \<and>
         r \<le> length (Table_blocks t) \<and>
         (\<forall>j<r. key_of (Table_blocks t ! j) < v) \<and>
         (\<forall>j. r \<le> j \<and> j < length (Table_blocks t) \<longrightarrow> v \<le> key_of (Table_blocks t ! j))"
proof (induction s arbitrary: i rule: less_induct)
  case (less s)
  let ?n = "length (Table_blocks t)"
  let ?k = "\<lambda>j. key_of (Table_blocks t ! j)"
  have mono: "?k a \<le> ?k b" if "a \<le> b" "b < ?n" for a b
    using srt that by (simp add: sorted_iff_nth_mono)
  show ?case
  proof (cases "s = 0")
    case True
    with less.prems show ?thesis by auto
  next
    case False
    let ?m = "i + s div 2"
    have m_lt: "?m < ?n"
      using False less.prems(1)
      by (simp add: less_le_trans [OF _ less.prems(1)] add_strict_left_mono)
    have a0: "int i + int s div 2 = int ?m" by simp
    have g: "Table_get t (int i + int s div 2) = Inr (Table_blocks t ! ?m)"
      unfolding a0 by (rule Table_get_blocks [OF m_lt])
    have a1: "int i + (int s div 2 + 1) = int (?m + 1)" by simp
    have a2: "int s div 2 + int s mod 2 - 1 = int (s - s div 2 - 1)"
      using False by (simp add: of_nat_diff) presburger
    have a3: "int s div 2 = int (s div 2)" by simp
    show ?thesis
    proof (cases "v > ?k ?m")
      case True
      have lt: "s - s div 2 - 1 < s" using False by simp
      have p1: "?m + 1 + (s - s div 2 - 1) \<le> ?n" using less.prems(1) False by simp
      have p2: "\<forall>j<?m + 1. ?k j < v"
      proof (intro allI impI)
        fix j assume "j < ?m + 1"
        then have "?k j \<le> ?k ?m" using mono [of j ?m] m_lt by simp
        with True show "?k j < v" by simp
      qed
      have p3: "\<forall>j. ?m + 1 + (s - s div 2 - 1) \<le> j \<and> j < ?n \<longrightarrow> v \<le> ?k j"
        using less.prems(3) False by simp
      from less.IH [OF lt p1 p2 p3]
      obtain r where
        "find_sorted_loop t v key_of (int (?m + 1)) (int (s - s div 2 - 1)) = Inr (int r)"
        and "r \<le> ?n" and "\<forall>j<r. ?k j < v" and "\<forall>j. r \<le> j \<and> j < ?n \<longrightarrow> v \<le> ?k j"
        by blast
      then show ?thesis
        using False True g
        by (subst find_sorted_loop.simps) (simp only: a1 a2, simp)
    next
      case F: False
      have lt: "s div 2 < s" using False by simp
      have p1: "i + s div 2 \<le> ?n" using m_lt by simp
      have p3: "\<forall>j. i + s div 2 \<le> j \<and> j < ?n \<longrightarrow> v \<le> ?k j"
      proof (intro allI impI)
        fix j assume "i + s div 2 \<le> j \<and> j < ?n"
        then have "?k ?m \<le> ?k j" using mono [of ?m j] by simp
        with F show "v \<le> ?k j" by simp
      qed
      from less.IH [OF lt p1 less.prems(2) p3]
      obtain r where "find_sorted_loop t v key_of (int i) (int (s div 2)) = Inr (int r)"
        and "r \<le> ?n" and "\<forall>j<r. ?k j < v" and "\<forall>j. r \<le> j \<and> j < ?n \<longrightarrow> v \<le> ?k j"
        by blast
      then show ?thesis
        using False F g
        by (subst find_sorted_loop.simps) (simp only: a3, simp)
    qed
  qed
qed

text \<open>
  Claim C1.  On a store with a positive block width whose \<open>n\<close> blocks are non-decreasing
  under the key function, \<open>find_sorted\<close> returns the lower bound of the probe \<open>v\<close>: an
  index \<open>i \<le> n\<close> such that every block before \<open>i\<close> has a key below \<open>v\<close> and, unless
  \<open>i = n\<close>, the block at \<open>i\<close> has a key of at least \<open>v\<close>.  So \<open>i\<close> is the smallest index
  whose key is at least \<open>v\<close>, and \<open>n\<close> when there is none (\<open>0\<close> on an empty store).
\<close>

theorem Table_find_sorted_lower_bound:
  fixes key_of :: "pybytes \<Rightarrow> 'k::linorder"
  assumes "0 < block_size t"
    and "sorted (map key_of (Table_blocks t))"
  shows "\<exists>i. Table_find_sorted t v key_of = Inr (int i) \<and>
           i \<le> length (Table_blocks t) \<and>
           (\<forall>j<i. key_of (Table_blocks t ! j) < v) \<and>
           (i < length (Table_blocks t) \<longrightarrow> v \<le> key_of (Table_blocks t ! i))"
proof -
  have "\<exists>r. find_sorted_loop t v key_of (int 0) (int (length (Table_blocks t))) = Inr (int r) \<and>
         r \<le> length (Table_blocks t) \<and>
         (\<forall>j<r. key_of (Table_blocks t ! j) < v) \<and>
         (\<forall>j. r \<le> j \<and> j < length (Table_blocks t) \<longrightarrow> v \<le> key_of (Table_blocks t ! j))"
    by (rule find_sorted_loop_lower_bound [OF assms(2)]) auto
  then show ?thesis
    using assms(1) by (auto simp: Table_find_sorted_def Table_size_pos length_Table_blocks)
qed

lemma blocks_store135: "Table_blocks store135 = [[1], [3], [5]]"
  by (simp add: Table_blocks_def store135_def upt_conv_Cons)

theorem Table_find_sorted_lower_bound_witness:
  "0 < block_size store135 \<and> sorted (map key_sum (Table_blocks store135)) \<and>
   Table_find_sorted store135 4 key_sum = Inr 2 \<and>
   key_sum (Table_blocks store135 ! 1) < 4 \<and> 4 \<le> key_sum (Table_blocks store135 ! 2)"
proof -
  have h1: "0 < block_size store135" by (simp add: store135_def)
  have h2: "sorted (map key_sum (Table_blocks store135))"
    by (simp add: blocks_store135 key_sum_def)
  obtain i where r: "Table_find_sorted store135 4 key_sum = Inr (int i)"
    and "\<forall>j<i. key_sum (Table_blocks store135 ! j) < 4"
    and "i < length (Table_blocks store135) \<longrightarrow> 4 \<le> key_sum (Table_blocks store135 ! i)"
    using Table_find_sorted_lower_bound [OF h1 h2, of 4] by blast
  have e: "Table_find_sorted store135 4 key_sum = Inr 2" by code_simp
  from h1 h2 e show ?thesis by (simp add: blocks_store135 key_sum_def)
qed

text \<open>
  Claim C10.  On every store with a positive block width, whatever its content and
  whatever the key function, \<open>find_sorted\<close> returns (the loop is a total function: its
  \<open>size\<close> decreases in every round) and its result is an index between \<open>0\<close> and
  \<open>size()\<close>.  With a block width of \<open>0\<close> \<open>size()\<close> itself divides by zero.
\<close>

theorem Table_find_sorted_in_range:
  assumes "0 < block_size t"
  shows "\<exists>i n. Table_size t = Inr n \<and> Table_find_sorted t v key_of = Inr i \<and> 0 \<le> i \<and> i \<le> n"
proof -
  obtain r where
    "find_sorted_loop t v key_of (int 0) (int (length (file_bytes t) div block_size t)) = Inr (int r)"
    and "r \<le> 0 + length (file_bytes t) div block_size t"
    using find_sorted_loop_bounds [of 0 "length (file_bytes t) div block_size t" t v key_of]
    by (auto simp: length_Table_blocks)
  then show ?thesis
    using assms by (simp add: Table_find_sorted_def Table_size_pos)
qed

theorem Table_find_sorted_in_range_witness:
  "0 < block_size store_unsorted \<and> Table_size store_unsorted = Inr 3 \<and>
   Table_find_sorted store_unsorted 6 key_sum = Inr 3 \<and>
   map key_sum (Table_blocks store_unsorted) = [7, 2, 5]"
proof -
  have h: "0 < block_size store_unsorted" by (simp add: store_unsorted_def)
  have e: "Table_size store_unsorted = Inr 3 \<and>
    Table_find_sorted store_unsorted 6 key_sum = Inr 3 \<and>
    map key_sum (Table_blocks store_unsorted) = [7, 2, 5]" by code_simp
  from h e Table_find_sorted_in_range [OF h, of 6 key_sum] show ?thesis by simp
qed

section \<open>Out-of-range reads of the block store\<close>




section \<open>The check of a class definition\<close>

text \<open>
  Claim C5, as the code has it.  \<open>__init_subclass__\<close> looks for the name \<open>id\<close> in the
  class dictionary and for nothing else: the definition fails with \<open>NoFieldError\<close>
  exactly when the class body has no attribute named \<open>id\<close>, and is accepted whenever it
  has one, whatever that attribute is.
\<close>

theorem Struct_init_subclass_checks_name_only:
  "(Struct_init_subclass cls = Inl NoFieldError) = (map_of cls ''id'' = None) \<and>
   (Struct_init_subclass cls = Inr ()) = (\<exists>a. map_of cls ''id'' = Some a)"
  by (auto simp: Struct_init_subclass_def map_of_eq_None_iff image_iff weak_map_of_SomeI
      dest: map_of_SomeD)

theorem Struct_init_subclass_checks_name_only_witness:
  "Struct_init_subclass Person = Inr () \<and> Struct_init_subclass schema_no_id = Inl NoFieldError"
  using Struct_init_subclass_checks_name_only [of Person]
    Struct_init_subclass_checks_name_only [of schema_no_id]
  by (simp add: Person_def schema_no_id_def)

text \<open>The claim as stated fails: a class whose \<open>id\<close> is \<open>Uint32(default=5)\<close> is accepted.\<close>

theorem Struct_init_subclass_accepts_other_id:
  "map_of schema_id_uint32 ''id'' = Some (Field (BaseField Uint32 (PyInt 5))) \<and>
   Struct_init_subclass schema_id_uint32 = Inr ()"
  by (simp add: schema_id_uint32_def Struct_init_subclass_def)

section \<open>Insertion of a record that has an id\<close>

text \<open>
  Claim C7.  For every record whose \<open>id\<close> differs from \<open>0\<close>, \<open>insert\<close> raises \<open>IdError\<close>,
  and the store and the record are as before the call.
\<close>

theorem Struct_insert_with_id_fails:
  assumes "Struct_getattr cls r ''id'' = Inr v" and "py_ne_zero v"
  shows "Struct_insert cls r t = (Inl IdError, r, t)"
  using assms by (simp add: Struct_insert_def)

theorem Struct_insert_with_id_fails_witness:
  "Struct_getattr Person alex1 ''id'' = Inr (PyInt 1) \<and> py_ne_zero (PyInt 1) \<and>
   Struct_insert Person alex1 (Struct_bind Person fs_limit alex_block1)
     = (Inl IdError, alex1, Struct_bind Person fs_limit alex_block1)"
proof -
  have h1: "Struct_getattr Person alex1 ''id'' = Inr (PyInt 1)"
    by (simp add: Struct_getattr_def alex1_def)
  have h2: "py_ne_zero (PyInt 1)" by (simp add: py_ne_zero_def)
  from h1 h2 Struct_insert_with_id_fails [OF h1 h2, of "Struct_bind Person fs_limit alex_block1"]
  show ?thesis by simp
qed

section \<open>The field codecs: encoding and decoding\<close>


lemma length_be_bytes: "length (be_bytes k n) = k"
  by (induction k arbitrary: n) simp_all






lemma decoded_Inr: "decoded c (Inr s) = Inr (c # s)"
  by (simp add: decoded_def)



















section \<open>Insertion\<close>


lemma length_pack_uint: "pack_uint k v = Inr b \<Longrightarrow> length b = k"
  by (auto simp: pack_uint_def length_be_bytes split: option.splits if_splits)

lemma pack_uint_zero: "\<not> py_ne_zero v \<Longrightarrow> \<exists>b. pack_uint k v = Inr b"
  by (auto simp: py_ne_zero_def pack_uint_def split: option.splits)











section \<open>What the code does at the inputs where it departs from the claims\<close>

text \<open>
  Claim C3.  The test \<open>test_get\<close> of \<open>tests.py\<close>: after \<open>Person(name='alex', age=32)\<close> is
  inserted into an empty store, \<open>get(1)\<close> returns a record whose name is \<open>alex\<close> followed
  by 28 null characters, not the name \<open>alex\<close> that was written: \<open>Varchar.from_bytes\<close>
  decodes the padding too.
\<close>

theorem Struct_get_keeps_padding:
  "fst (Struct_insert Person alex (Struct_bind Person fs_limit [])) = Inr (PyInt 1) \<and>
   map_sum id (Struct_values Person)
     (Struct_get Person (snd (snd (Struct_insert Person alex (Struct_bind Person fs_limit [])))) (PyInt 1))
   = Inr [Some (PyInt 1), Some (PyStr ([97, 108, 101, 120] @ replicate 28 0)), Some (PyInt 32)] \<and>
   Struct_values Person alex = [Some (PyInt 0), Some (PyStr [97, 108, 101, 120]), Some (PyInt 32)]"
  by code_simp

text \<open>
  Claim C9.  \<open>Varchar.validate\<close> counts the characters of the string and
  \<open>Varchar.to_bytes\<close> pads by the bytes of its UTF-8 form: the one character U+00E9
  passes \<open>validate\<close> of a \<open>Varchar(1)\<close> and is encoded in two bytes.  The record's encoding
  has 10 bytes where the block has 9, and after its insertion into an empty store the
  file has 10 bytes.
\<close>

theorem Varchar_to_bytes_too_long:
  "validate (BaseField (Varchar 1) (PyStr [])) (PyStr [233]) = Inr () \<and>
   to_bytes (BaseField (Varchar 1) (PyStr [])) (PyStr [233]) = Inr [195, 169] \<and>
   sizeof (BaseField (Varchar 1) (PyStr [])) = 1 \<and>
   map_sum id (Struct_values Tag) (Struct_init Tag [''name'' \<mapsto> PyStr [233]])
     = Inr (Struct_values Tag e_acute) \<and>
   map_sum id length (Struct_as_bytes Tag e_acute) = Inr 10 \<and>
   Struct_block_size Tag = 9 \<and>
   fst (Struct_insert Tag e_acute (Struct_bind Tag fs_limit [])) = Inr (PyInt 1) \<and>
   length (file_bytes (snd (snd (Struct_insert Tag e_acute (Struct_bind Tag fs_limit []))))) = 10"
  by code_simp

text \<open>
  Claim C8.  On the store of the two records \<open>(1, 'a')\<close> and \<open>(2, 'b')\<close>, \<open>update\<close> of
  the record with the \<open>id\<close> 1 and the name U+00E9 writes 10 bytes at the offset 0: the first
  byte of the block at the index 1 is overwritten.
\<close>

theorem Struct_update_overwrites_next_block:
  "Table_size store_ab = Inr 2 \<and>
   map_sum id (Struct_values Tag) (Struct_init Tag [''id'' \<mapsto> PyInt 1, ''name'' \<mapsto> PyStr [233]])
     = Inr (Struct_values Tag e_acute1) \<and>
   Struct_get_index_by_id store_ab (PyInt 1) = Inr 0 \<and>
   fst (Struct_update Tag e_acute1 store_ab) = Inr () \<and>
   Table_get store_ab 1 = Inr [0, 0, 0, 0, 0, 0, 0, 2, 98] \<and>
   Table_get (snd (Struct_update Tag e_acute1 store_ab)) 1 = Inr [169, 0, 0, 0, 0, 0, 0, 2, 98]"
  by code_simp

section \<open>What holds of \<open>get\<close>, \<open>update\<close> and the encodings\<close>

text \<open>
  \<open>get\<close> of an integer identifier outside \<open>1 .. size()\<close> raises \<open>IdError\<close>; it reads
  nothing and writes nothing.
\<close>

lemma Struct_get_index_by_id_range:
  assumes "0 < block_size t"
  shows "Struct_get_index_by_id t (PyInt i) =
     (if 1 \<le> i \<and> i \<le> int (length (file_bytes t) div block_size t) then Inr (i - 1)
      else Inl IdError)"
  using assms by (auto simp: Struct_get_index_by_id_def Table_size_pos)

lemma Struct_get_bad_id:
  assumes "0 < block_size t" and "Table_size t = Inr n" and "i < 1 \<or> n < i"
  shows "Struct_get cls t (PyInt i) = Inl IdError"
  using assms by (auto simp: Struct_get_def Struct_get_index_by_id_def)


text \<open>
  \<open>update\<close> of a record whose encoding has the length of a block: the size of the store
  is as before, the block of the record is the encoding, and every other block is as
  before.
\<close>

lemma take_drop_before:
  "k + n \<le> off \<Longrightarrow> off \<le> length f \<Longrightarrow>
   take n (drop k (take off f @ rest)) = take n (drop k f)"
proof -
  assume a: "k + n \<le> off" "off \<le> length f"
  then have "take n (drop k (take off f @ rest)) = take n (drop k (take off f))" by simp
  also have "\<dots> = take n (take (off - k) (drop k f))" by (simp add: drop_take)
  also have "\<dots> = take n (drop k f)" using a by (simp add: min_absorb1)
  finally show ?thesis .
qed

lemma drop_after:
  "off + length b \<le> k \<Longrightarrow> off \<le> length f \<Longrightarrow>
   drop k (take off f @ b @ drop (off + length b) f) = drop k f"
  by (simp add: min_def)

lemma file_seek_pos: "file_seek lim f off = Inr pos \<Longrightarrow> pos = nat off"
  by (auto simp: file_seek_def split: if_splits)

lemma Table_get_same:
  assumes "block_size t' = block_size t" and "max_offset t' = max_offset t"
    and "length (file_bytes t') = length (file_bytes t)" and "0 \<le> j"
    and "take (block_size t) (drop (nat j * block_size t) (file_bytes t'))
         = take (block_size t) (drop (nat j * block_size t) (file_bytes t))"
  shows "Table_get t' j = Table_get t j"
proof -
  let ?off = "j * int (block_size t)"
  have e: "file_seek (max_offset t) (file_bytes t') ?off
         = file_seek (max_offset t) (file_bytes t) ?off"
    using assms(3) by (simp add: file_seek_def)
  have n: "nat ?off = nat j * block_size t" using assms(4) by (simp add: nat_mult_distrib)
  show ?thesis
  proof (cases "file_seek (max_offset t) (file_bytes t) ?off")
    case (Inl err)
    with e show ?thesis by (simp add: Table_get_def file_seek_read_def assms(1,2))
  next
    case (Inr pos)
    then have "pos = nat j * block_size t" using file_seek_pos [OF Inr] n by simp
    with e Inr assms(5) show ?thesis
      by (simp add: Table_get_def file_seek_read_def assms(1,2))
  qed
qed

lemma Table_update_frame:
  assumes bs: "0 < block_size t" and i: "0 \<le> idx" "idx < int (length (file_bytes t) div block_size t)"
    and lb: "length b = block_size t"
  shows "\<exists>t'. Table_update t b idx = (Inr (), t') \<and> block_size t' = block_size t \<and>
           length (file_bytes t') = length (file_bytes t) \<and>
           Table_get t' idx = Inr b \<and>
           (\<forall>j. 0 \<le> j \<and> j \<noteq> idx \<longrightarrow> Table_get t' j = Table_get t j)"
proof -
  let ?bs = "block_size t" and ?f = "file_bytes t"
  define off where "off = nat idx * ?bs"
  have o: "idx * int ?bs = int off" using i(1) by (simp add: off_def)
  from i have "nat idx + 1 \<le> length ?f div ?bs" by linarith
  then have "(nat idx + 1) * ?bs \<le> length ?f div ?bs * ?bs" by (rule mult_le_mono1)
  also have "\<dots> \<le> length ?f" by simp
  finally have fit: "off + ?bs \<le> length ?f" by (simp add: off_def)
  define t' where "t' = t\<lparr>file_bytes := take off ?f @ b @ drop (off + length b) ?f\<rparr>"
  have u: "Table_update t b idx = (Inr (), t')"
    using fit by (simp add: Table_update_def file_seek_write_def file_seek_def o t'_def)
  have bs': "block_size t' = ?bs" by (simp add: t'_def)
  have f': "file_bytes t' = take off ?f @ b @ drop (off + length b) ?f" by (simp add: t'_def)
  have mo': "max_offset t' = max_offset t" by (simp add: t'_def)
  have len: "length (file_bytes t') = length ?f" using fit lb by (simp add: f')
  have "nat idx * block_size t' \<le> length (file_bytes t')"
    using fit unfolding len bs' by (simp add: off_def)
  from Table_get_in_file [OF i(1) this]
  have own: "Table_get t' idx = Inr b"
    using fit lb by (simp add: bs' f' off_def [symmetric])
  have other: "Table_get t' j = Table_get t j" if j: "0 \<le> j" "j \<noteq> idx" for j
  proof (cases "j < idx")
    case True
    then have "nat j + 1 \<le> nat idx" using j(1) by linarith
    then have "(nat j + 1) * ?bs \<le> nat idx * ?bs" by (rule mult_le_mono1)
    then have "nat j * ?bs + ?bs \<le> off" by (simp add: off_def)
    moreover have "off \<le> length ?f" using fit by simp
    ultimately have "take ?bs (drop (nat j * ?bs) (file_bytes t')) = take ?bs (drop (nat j * ?bs) ?f)"
      unfolding f' by (rule take_drop_before)
    then show ?thesis by (rule Table_get_same [OF bs' mo' len j(1)])
  next
    case False
    with j have "nat idx + 1 \<le> nat j" using i(1) by linarith
    then have "(nat idx + 1) * ?bs \<le> nat j * ?bs" by (rule mult_le_mono1)
    then have "off + length b \<le> nat j * ?bs" by (simp add: off_def lb)
    moreover have "off \<le> length ?f" using fit by simp
    ultimately have "drop (nat j * ?bs) (file_bytes t') = drop (nat j * ?bs) ?f"
      unfolding f' by (rule drop_after)
    then have "take ?bs (drop (nat j * ?bs) (file_bytes t')) = take ?bs (drop (nat j * ?bs) ?f)"
      by simp
    then show ?thesis by (rule Table_get_same [OF bs' mo' len j(1)])
  qed
  from u bs' len own other show ?thesis by blast
qed

lemma Struct_update_frame:
  assumes "0 < block_size t" and "Struct_getattr cls r ''id'' = Inr (PyInt i)"
    and "Table_size t = Inr n" and "1 \<le> i" and "i \<le> n"
    and "Struct_as_bytes cls r = Inr b" and "length b = block_size t"
  shows "\<exists>t'. Struct_update cls r t = (Inr (), t') \<and> Table_size t' = Inr n \<and>
           Table_get t' (i - 1) = Inr b \<and>
           (\<forall>j. 0 \<le> j \<and> j \<noteq> i - 1 \<longrightarrow> Table_get t' j = Table_get t j)"
proof -
  from assms(1,3) have n: "n = int (length (file_bytes t) div block_size t)"
    by (simp add: Table_size_pos)
  have idx: "Struct_get_index_by_id t (PyInt i) = Inr (i - 1)"
    using assms(3,4,5) by (simp add: Struct_get_index_by_id_def)
  have "0 \<le> i - 1" "i - 1 < int (length (file_bytes t) div block_size t)"
    using assms(4,5) n by simp_all
  from Table_update_frame [OF assms(1) this assms(7)]
  obtain t' where u: "Table_update t b (i - 1) = (Inr (), t')"
    and b: "block_size t' = block_size t" and l: "length (file_bytes t') = length (file_bytes t)"
    and g: "Table_get t' (i - 1) = Inr b"
    and o: "\<forall>j. 0 \<le> j \<and> j \<noteq> i - 1 \<longrightarrow> Table_get t' j = Table_get t j"
    by blast
  have "Struct_update cls r t = (Inr (), t')"
    by (simp add: Struct_update_def assms(2,6) idx u)
  moreover have "Table_size t' = Inr n" using assms(1) n by (simp add: Table_size_def b l zdiv_int)
  ultimately show ?thesis using g o by blast
qed


text \<open>
  The encoding of a value that \<open>validate\<close> accepts is never shorter than the field's
  width.  It has the field's width for every field but a \<open>Varchar\<close>, and for a \<open>Varchar\<close>
  when every character of the string is below \<open>0x80\<close> (one byte in UTF-8).
\<close>

lemma length_pack_int: "pack_int k v = Inr b \<Longrightarrow> length b = k"
  by (auto simp: pack_int_def length_be_bytes split: option.splits if_splits)

lemma utf8_encode_ascii: "\<forall>c\<in>set s. c < 0x80 \<Longrightarrow> \<exists>e. utf8_encode s = Inr e \<and> length e = length s"
  by (induction s) (auto simp: utf8_encode_char_def)

lemma to_bytes_length:
  assumes "validate f v = Inr ()" and "to_bytes f v = Inr b"
  shows "sizeof f \<le> length b"
    and "(\<forall>n. kind f \<noteq> Varchar n) \<Longrightarrow> length b = sizeof f"
    and "\<And>s. v = PyStr s \<Longrightarrow> \<forall>c\<in>set s. c < 0x80 \<Longrightarrow> length b = sizeof f"
proof -
  have *: "sizeof f \<le> length b \<and> ((\<forall>n. kind f \<noteq> Varchar n) \<longrightarrow> length b = sizeof f)
        \<and> (\<forall>s. v = PyStr s \<and> (\<forall>c\<in>set s. c < 0x80) \<longrightarrow> length b = sizeof f)"
  proof (cases "kind f")
    case (Varchar n)
    from assms(2) Varchar obtain s e where v: "v = PyStr s" and e: "utf8_encode s = Inr e"
      and b: "b = e @ replicate (n - length e) 0"
      by (auto simp: to_bytes_def Varchar_to_bytes_def split: pyval.splits sum.splits)
    from assms(1) Varchar v have l: "length s \<le> n"
      by (auto simp: validate_def BaseField_validate_def split: if_splits)
    have "length b = n" if "\<forall>c\<in>set s. c < 0x80"
      using utf8_encode_ascii [OF that] e l b by auto
    then show ?thesis using Varchar v b by (auto simp: sizeof_def)
  next
    case (Bytes n)
    with assms show ?thesis
      by (auto simp: validate_def BaseField_validate_def to_bytes_def Bytes_to_bytes_def sizeof_def
          split: pyval.splits if_splits)
  qed (use assms(2) in \<open>auto simp: to_bytes_def sizeof_def pack_bool_def
        dest: length_pack_uint length_pack_int split: pyval.splits\<close>)
  from * show "sizeof f \<le> length b" by blast
  from * show "(\<forall>n. kind f \<noteq> Varchar n) \<Longrightarrow> length b = sizeof f" by blast
  from * show "\<And>s. v = PyStr s \<Longrightarrow> \<forall>c\<in>set s. c < 0x80 \<Longrightarrow> length b = sizeof f" by blast
qed

end
